theory Spec2Isabelle
  imports Complex_Main "HOL-Library.Sublist"
begin

section \<open>Python strings over 8-bit code points\<close>

text \<open>
  The adapter (\<^verbatim>\<open>src/guardrails_adapter/app.py\<close>) works on Python \<^verbatim>\<open>str\<close> values.
  They are modelled as \<^typ>\<open>string\<close>, one \<^typ>\<open>char\<close> per code point, which covers the
  code points 0 to 255. Whitespace, line boundaries and letter case below are Python's own
  tables restricted to that range.
\<close>

definition whitespace_chars :: "char list" where
  \<comment> \<open>the code points below 256 for which \<^verbatim>\<open>str.isspace\<close> holds; \<^verbatim>\<open>str.strip()\<close> and the
      regular expression class \<^verbatim>\<open>\s\<close> both use this set\<close>
  "whitespace_chars =
     [CHR 0x09, CHR 0x0A, CHR 0x0B, CHR 0x0C, CHR 0x0D, CHR 0x1C, CHR 0x1D, CHR 0x1E,
      CHR 0x1F, CHR 0x20, CHR 0x85, CHR 0xA0]"

definition is_space :: "char \<Rightarrow> bool" where
  "is_space c = (c \<in> set whitespace_chars)"

definition line_boundaries :: "char list" where
  \<comment> \<open>the code points below 256 at which \<^verbatim>\<open>str.splitlines\<close> breaks a line\<close>
  "line_boundaries =
     [CHR 0x0A, CHR 0x0B, CHR 0x0C, CHR 0x0D, CHR 0x1C, CHR 0x1D, CHR 0x1E, CHR 0x85]"

definition is_linebreak :: "char \<Rightarrow> bool" where
  "is_linebreak c = (c \<in> set line_boundaries)"

definition lstrip :: "string \<Rightarrow> string" where
  "lstrip s = dropWhile is_space s"

definition rstrip :: "string \<Rightarrow> string" where
  "rstrip s = rev (dropWhile is_space (rev s))"

definition strip :: "string \<Rightarrow> string" where
  \<comment> \<open>\<^verbatim>\<open>s.strip()\<close>\<close>
  "strip s = rstrip (lstrip s)"

definition lower_char :: "char \<Rightarrow> char" where
  \<comment> \<open>\<^verbatim>\<open>c.lower()\<close> for a code point below 256: A to Z, and 0xC0 to 0xDE except the
      multiplication sign 0xD7, move up by 32\<close>
  "lower_char c =
     (let n = (of_char c :: nat)
      in if (65 \<le> n \<and> n \<le> 90) \<or> (192 \<le> n \<and> n \<le> 222 \<and> n \<noteq> 215)
         then char_of (n + 32) else c)"

definition lower :: "string \<Rightarrow> string" where
  "lower s = map lower_char s"

definition upper_char :: "char \<Rightarrow> char" where
  \<comment> \<open>\<^verbatim>\<open>c.upper()\<close> for a code point below 256 whose upper case is below 256 too: a to z,
      and 0xE0 to 0xFE except the division sign 0xF7, move down by 32. The upper cases of
      0xB5, 0xDF and 0xFF lie outside the range; the adapter upper-cases only the four
      ASCII role names.\<close>
  "upper_char c =
     (let n = (of_char c :: nat)
      in if (97 \<le> n \<and> n \<le> 122) \<or> (224 \<le> n \<and> n \<le> 254 \<and> n \<noteq> 247)
         then char_of (n - 32) else c)"

definition upper :: "string \<Rightarrow> string" where
  "upper s = map upper_char s"

fun join :: "string \<Rightarrow> string list \<Rightarrow> string" where
  \<comment> \<open>\<^verbatim>\<open>sep.join(xs)\<close>\<close>
  "join sep [] = []"
| "join sep [x] = x"
| "join sep (x # y # ys) = x @ sep @ join sep (y # ys)"

fun splitlines_from :: "string \<Rightarrow> string \<Rightarrow> string list" where
  \<comment> \<open>the scan of \<^verbatim>\<open>str.splitlines()\<close>: \<open>cur\<close> is the line read so far. A carriage
      return followed by a line feed is one boundary; a last line is produced only when
      it is not empty.\<close>
  "splitlines_from cur [] = (if cur = [] then [] else [cur])"
| "splitlines_from cur (c # cs) =
     (if c = CHR 0x0D \<and> cs \<noteq> [] \<and> hd cs = CHR 0x0A then cur # splitlines_from [] (tl cs)
      else if is_linebreak c then cur # splitlines_from [] cs
      else splitlines_from (cur @ [c]) cs)"

definition splitlines :: "string \<Rightarrow> string list" where
  "splitlines s = splitlines_from [] s"

fun contains :: "string \<Rightarrow> string \<Rightarrow> bool" where
  \<comment> \<open>\<^verbatim>\<open>sub in s\<close>\<close>
  "contains sub [] = (sub = [])"
| "contains sub (c # cs) = (prefix sub (c # cs) \<or> contains sub cs)"

fun rsplit_last :: "string \<Rightarrow> string \<Rightarrow> (string \<times> string) option" where
  \<comment> \<open>the text before and after the last occurrence of a non-empty \<open>sep\<close>\<close>
  "rsplit_last sep [] = None"
| "rsplit_last sep (c # cs) =
     (case rsplit_last sep cs of
        Some (b, a) \<Rightarrow> Some (c # b, a)
      | None \<Rightarrow> if prefix sep (c # cs) then Some ([], drop (length sep) (c # cs)) else None)"

definition rsplit1 :: "string \<Rightarrow> string \<Rightarrow> string list" where
  \<comment> \<open>\<^verbatim>\<open>s.rsplit(sep, 1)\<close> for a non-empty \<open>sep\<close>\<close>
  "rsplit1 sep s = (case rsplit_last sep s of None \<Rightarrow> [s] | Some (b, a) \<Rightarrow> [b, a])"

fun split_first_ci :: "string \<Rightarrow> string \<Rightarrow> (string \<times> string) option" where
  \<comment> \<open>the text before and after the first place where the lower-case literal \<open>pat\<close>
      matches with case ignored\<close>
  "split_first_ci pat [] = None"
| "split_first_ci pat (c # cs) =
     (if prefix pat (lower (c # cs)) then Some ([], drop (length pat) (c # cs))
      else case split_first_ci pat cs of
             Some (b, a) \<Rightarrow> Some (c # b, a)
           | None \<Rightarrow> None)"

definition re_split_ci1 :: "string \<Rightarrow> string \<Rightarrow> string list" where
  \<comment> \<open>\<^verbatim>\<open>re.split(r"(?i)pat", s, maxsplit=1)\<close> for a literal lower-case \<open>pat\<close>\<close>
  "re_split_ci1 pat s = (case split_first_ci pat s of None \<Rightarrow> [s] | Some (b, a) \<Rightarrow> [b, a])"

section \<open>The prompt builder\<close>

record ChatMessage =
  role :: string
  content :: string

definition known_roles :: "string list" where
  "known_roles = [''system'', ''user'', ''assistant'', ''tool'']"

definition normalize_role :: "string \<Rightarrow> string" where
  \<comment> \<open>lines 41 to 43: trim, lower-case, fall back to \<^verbatim>\<open>user\<close>\<close>
  "normalize_role r =
     (let r' = lower (strip r) in if r' \<in> set known_roles then r' else ''user'')"

definition prompt_line :: "ChatMessage \<Rightarrow> string" where
  \<comment> \<open>line 44: \<^verbatim>\<open>f"{role.upper()}: {m.content}"\<close>\<close>
  "prompt_line m = upper (normalize_role (role m)) @ '': '' @ content m"

definition messages_to_prompt :: "ChatMessage list \<Rightarrow> string" where
  "messages_to_prompt ms = join [CHR 0x0A] (map prompt_line ms @ [''ASSISTANT:''])"

section \<open>The completion cleaner\<close>

fun first_non_empty :: "string list \<Rightarrow> string" where
  "first_non_empty [] = []"
| "first_non_empty (l # ls) =
     (let l' = strip l in if l' \<noteq> [] then l' else first_non_empty ls)"

definition first_non_empty_line :: "string \<Rightarrow> string" where
  "first_non_empty_line s = first_non_empty (splitlines s)"

definition role_labels :: "string list" where
  \<comment> \<open>the alternatives of the pattern at line 75, in its order\<close>
  "role_labels = [''USER'', ''User'', ''SYSTEM'', ''System'', ''ASSISTANT'', ''Assistant'']"

definition label_then_colon :: "string \<Rightarrow> string \<Rightarrow> bool" where
  \<comment> \<open>\<open>s\<close> starts with \<open>lab\<close>, then any whitespace, then a colon\<close>
  "label_then_colon s lab =
     (prefix lab s \<and>
      (case dropWhile is_space (drop (length lab) s) of
         [] \<Rightarrow> False
       | c # _ \<Rightarrow> c = CHR '':''))"

definition role_line :: "string \<Rightarrow> bool" where
  \<comment> \<open>\<^verbatim>\<open>re.match(r"^(USER|User|SYSTEM|System|ASSISTANT|Assistant)\s*:", s)\<close> succeeds\<close>
  "role_line s = list_ex (label_then_colon s) role_labels"

fun drop_transcript :: "string list \<Rightarrow> string list" where
  \<comment> \<open>the loop of lines 72 to 78 over the lines of the text: the result is
      \<^verbatim>\<open>cleaned_lines\<close>\<close>
  "drop_transcript [] = []"
| "drop_transcript (l # ls) =
     (let ln_stripped = strip l
      in if role_line ln_stripped then drop_transcript ls
         else if ln_stripped \<noteq> [] then ln_stripped # drop_transcript ls
         else drop_transcript ls)"

definition after_sentinel :: "string \<Rightarrow> string" where
  \<comment> \<open>lines 62 and 63\<close>
  "after_sentinel t =
     (if contains ''ASSISTANT:'' t then strip (last (rsplit1 ''ASSISTANT:'' t)) else t)"

definition after_final_marker :: "string \<Rightarrow> string" where
  \<comment> \<open>lines 66 to 69\<close>
  "after_final_marker t =
     (if contains ''assistantfinal'' (lower t)
      then (let parts = re_split_ci1 ''assistantfinal'' t
            in if length parts = 2 then strip (parts ! 1) else t)
      else t)"

definition clean_completion :: "string \<Rightarrow> string" where
  "clean_completion text =
     (if text = [] then []
      else
        let t = strip text;
            t = after_sentinel t;
            t = after_final_marker t;
            cleaned_lines = drop_transcript (splitlines t);
            t = strip (join [CHR 0x0A] cleaned_lines);
            first = first_non_empty_line t
        in if first \<noteq> [] then first else t)"

section \<open>Requests, JSON values and the outside world\<close>

datatype json =
    JNull
  | JBool bool
  | JInt int
  | JFloat real
  | JStr string
  | JArr "json list"
  | JObj "(string \<times> json) list"

text \<open>
  A Python \<^verbatim>\<open>dict\<close> with string keys is the association list of its items in insertion
  order, under \<^const>\<open>JObj\<close>. A Python \<^verbatim>\<open>float\<close> is idealised as a \<^typ>\<open>real\<close>.
\<close>

fun truthy :: "json \<Rightarrow> bool" where
  \<comment> \<open>Python's truth value of a decoded JSON value\<close>
  "truthy JNull = False"
| "truthy (JBool b) = b"
| "truthy (JInt i) = (i \<noteq> 0)"
| "truthy (JFloat x) = (x \<noteq> 0)"
| "truthy (JStr s) = (s \<noteq> [])"
| "truthy (JArr xs) = (xs \<noteq> [])"
| "truthy (JObj kvs) = (kvs \<noteq> [])"

datatype stop_field = StopStr string | StopList "string list"

record ChatCompletionsRequest =
  model :: "string option"
  messages :: "ChatMessage list"
  temperature :: "real option"
  max_tokens :: "int option"
  stream :: "bool option"
  stop :: "stop_field option"

datatype 'a field = Absent | Null | Given 'a

record request_body =
  body_model :: "string field"
  body_messages :: "ChatMessage list"
  body_temperature :: "real field"
  body_max_tokens :: "int field"
  body_stream :: "bool field"
  body_stop :: "stop_field field"

definition with_default :: "'a option \<Rightarrow> 'a field \<Rightarrow> 'a option" where
  \<comment> \<open>an \<^verbatim>\<open>Optional\<close> field of the request class: the declared default when the key is
      absent, \<^verbatim>\<open>None\<close> when it is null, the value otherwise\<close>
  "with_default d f = (case f of Absent \<Rightarrow> d | Null \<Rightarrow> None | Given v \<Rightarrow> Some v)"

definition parse_request :: "request_body \<Rightarrow> ChatCompletionsRequest" where
  \<comment> \<open>the field declarations of lines 21 to 26 with their defaults\<close>
  "parse_request b =
     \<lparr> model = with_default None (body_model b),
       messages = body_messages b,
       temperature = with_default (Some 0.0) (body_temperature b),
       max_tokens = with_default (Some 256) (body_max_tokens b),
       stream = with_default (Some False) (body_stream b),
       stop = with_default None (body_stop b) \<rparr>"

record response =
  status_code :: int
  body :: string
  json_body :: "json option"

text \<open>
  \<^const>\<open>body\<close> is \<^verbatim>\<open>r.text\<close>; \<^const>\<open>json_body\<close> is what \<^verbatim>\<open>r.json()\<close> returns,
  \<^const>\<open>None\<close> when it raises because the body is not JSON.
\<close>

datatype post_outcome =
    Raised string
  | Returned response

text \<open>
  The outcome of \<^verbatim>\<open>requests.post(url, json=payload, timeout=300)\<close> at line 111: it returns
  a response, or raises an exception of the class named (a refused connection, a timeout).
\<close>

record world =
  TRITON_BASE :: string
  TRITON_MODEL :: string
  post_result :: post_outcome
  time_before :: real
  time_after :: real
  time_id_ms :: real
  time_created :: real

text \<open>
  What the handler reads from outside: the two configuration constants, the outcome of
  its one outbound call, the readings of \<^verbatim>\<open>time.time()\<close> at lines 110, 112 and 124, and
  \<^const>\<open>time_id_ms\<close>, the float that the product \<^verbatim>\<open>time.time()*1000\<close> of line 122 yields.
  That product is rounded by the float multiplication, so it is taken as it comes out
  rather than computed from a reading; \<^verbatim>\<open>int\<close> of a float and the difference of two
  nearby readings are exact, and are computed below.
\<close>

datatype failure =
    HTTPException int json
  | Uncaught string

text \<open>
  \<^const>\<open>HTTPException\<close> carries the status code and the detail the handler raises;
  \<^const>\<open>Uncaught\<close> is an exception of a callee that leaves the handler, which has no
  \<^verbatim>\<open>try\<close> statement.
\<close>

record outbound_call =
  call_url :: string
  call_json :: json
  call_timeout :: int

section \<open>Decimal rendering of integers\<close>

definition digit_char :: "nat \<Rightarrow> char" where
  "digit_char d = char_of (48 + d)"

fun digits :: "nat \<Rightarrow> string" where
  "digits n = (if n < 10 then [digit_char n] else digits (n div 10) @ [digit_char (n mod 10)])"

declare digits.simps [simp del]

definition str_int :: "int \<Rightarrow> string" where
  \<comment> \<open>\<^verbatim>\<open>str(i)\<close>, which an f-string applies to an integer\<close>
  "str_int i = (if i < 0 then CHR ''-'' # digits (nat (- i)) else digits (nat i))"

definition py_int :: "real \<Rightarrow> int" where
  \<comment> \<open>\<^verbatim>\<open>int(x)\<close> on a float: rounds towards zero\<close>
  "py_int x = (if 0 \<le> x then \<lfloor>x\<rfloor> else \<lceil>x\<rceil>)"

section \<open>The chat-completions handler\<close>

definition stop_val :: "ChatCompletionsRequest \<Rightarrow> string option" where
  \<comment> \<open>lines 93 to 97\<close>
  "stop_val req =
     (case stop req of
        Some (StopList (x # xs)) \<Rightarrow> Some x
      | Some (StopStr s) \<Rightarrow> Some s
      | _ \<Rightarrow> None)"

definition params :: "ChatCompletionsRequest \<Rightarrow> (string \<times> json) list" where
  \<comment> \<open>lines 99 to 105\<close>
  "params req =
     [(''stream'', JBool False),
      (''temperature'', JFloat (case temperature req of Some x \<Rightarrow> x | None \<Rightarrow> 0.0)),
      (''max_tokens'', JInt (case max_tokens req of Some n \<Rightarrow> n | None \<Rightarrow> 256))]
     @ (case stop_val req of
          Some s \<Rightarrow> if s \<noteq> [] then [(''stop'', JStr s)] else []
        | None \<Rightarrow> [])"

definition payload :: "ChatCompletionsRequest \<Rightarrow> json" where
  \<comment> \<open>lines 90 and 107\<close>
  "payload req =
     JObj [(''text_input'', JStr (messages_to_prompt (messages req))),
           (''parameters'', JObj (params req))]"

definition generate_url :: "world \<Rightarrow> string" where
  \<comment> \<open>line 109\<close>
  "generate_url w = TRITON_BASE w @ ''/v2/models/'' @ TRITON_MODEL w @ ''/generate''"

definition the_call :: "world \<Rightarrow> ChatCompletionsRequest \<Rightarrow> outbound_call" where
  "the_call w req = \<lparr> call_url = generate_url w, call_json = payload req, call_timeout = 300 \<rparr>"

definition usage :: "world \<Rightarrow> (string \<times> json) list" where
  \<comment> \<open>lines 133 to 138, with \<^verbatim>\<open>dt\<close> of line 112\<close>
  "usage w =
     [(''prompt_tokens'', JNull),
      (''completion_tokens'', JNull),
      (''total_tokens'', JNull),
      (''triton_latency_s'', JFloat (time_after w - time_before w))]"

definition response_id :: "world \<Rightarrow> string" where
  \<comment> \<open>line 122\<close>
  "response_id w = ''chatcmpl-adapter-'' @ str_int (py_int (time_id_ms w))"

definition completion :: "world \<Rightarrow> ChatCompletionsRequest \<Rightarrow> string \<Rightarrow> (string \<times> json) list" where
  \<comment> \<open>the dictionary returned at lines 121 to 139 for the cleaned text \<open>txt\<close>\<close>
  "completion w req txt =
     [(''id'', JStr (response_id w)),
      (''object'', JStr ''chat.completion''),
      (''created'', JInt (py_int (time_created w))),
      (''model'', JStr (case model req of
                          Some m \<Rightarrow> if m \<noteq> [] then m else TRITON_MODEL w
                        | None \<Rightarrow> TRITON_MODEL w)),
      (''choices'',
         JArr [JObj [(''index'', JInt 0),
                     (''message'', JObj [(''role'', JStr ''assistant''), (''content'', JStr txt)]),
                     (''finish_reason'', JStr ''stop'')]]),
      (''usage'', JObj (usage w))]"

definition text_output :: "json \<Rightarrow> failure + json" where
  \<comment> \<open>line 118: \<^verbatim>\<open>data.get("text_output", "")\<close>; only a dictionary has \<^verbatim>\<open>get\<close>\<close>
  "text_output data =
     (case data of
        JObj kvs \<Rightarrow> (case map_of kvs ''text_output'' of Some v \<Rightarrow> Inr v | None \<Rightarrow> Inr (JStr []))
      | _ \<Rightarrow> Inl (Uncaught ''AttributeError''))"

definition clean_value :: "json \<Rightarrow> failure + string" where
  \<comment> \<open>line 119: \<^verbatim>\<open>clean_completion\<close> on whatever the backend sent. A false value gives the
      empty string at line 57; any other value that is not a string has no \<^verbatim>\<open>strip\<close>.\<close>
  "clean_value v =
     (if \<not> truthy v then Inr []
      else case v of
             JStr s \<Rightarrow> Inr (clean_completion s)
           | _ \<Rightarrow> Inl (Uncaught ''AttributeError''))"

definition handle_response ::
  "world \<Rightarrow> ChatCompletionsRequest \<Rightarrow> response \<Rightarrow> failure + (string \<times> json) list" where
  \<comment> \<open>lines 114 to 139: what the handler does with the response of the backend\<close>
  "handle_response w req r =
     (if status_code r \<noteq> 200
      then Inl (HTTPException 502
                  (JObj [(''triton_status'', JInt (status_code r)),
                         (''triton_body'', JStr (body r))]))
      else (case json_body r of
              None \<Rightarrow> Inl (Uncaught ''JSONDecodeError'')
            | Some data \<Rightarrow>
                (case text_output data of
                   Inl f \<Rightarrow> Inl f
                 | Inr raw_text \<Rightarrow>
                     (case clean_value raw_text of
                        Inl f \<Rightarrow> Inl f
                      | Inr txt \<Rightarrow> Inr (completion w req txt)))))"

definition chat_completions ::
  "world \<Rightarrow> ChatCompletionsRequest \<Rightarrow> (failure + (string \<times> json) list) \<times> outbound_call list" where
  \<comment> \<open>the handler: its result or the exception that leaves it, and the outbound calls it
      issued\<close>
  "chat_completions w req =
     (if stream req = Some True
      then (Inl (HTTPException 400
                   (JStr ''stream=true not supported in this minimal adapter yet'')), [])
      else (case post_result w of
              Raised e \<Rightarrow> (Inl (Uncaught e), [the_call w req])
            | Returned r \<Rightarrow> (handle_response w req r, [the_call w req])))"

definition response_field ::
  "string \<Rightarrow> failure + (string \<times> json) list \<Rightarrow> json option" where
  \<comment> \<open>the value under a key of a successful response\<close>
  "response_field k res = (case res of Inl f \<Rightarrow> None | Inr d \<Rightarrow> map_of d k)"

definition payload_parameters :: "outbound_call \<Rightarrow> (string \<times> json) list option" where
  \<comment> \<open>the dictionary under the key \<^verbatim>\<open>parameters\<close> of the JSON body of an outbound call\<close>
  "payload_parameters c =
     (case call_json c of
        JObj kvs \<Rightarrow> (case map_of kvs ''parameters'' of Some (JObj ps) \<Rightarrow> Some ps | _ \<Rightarrow> None)
      | _ \<Rightarrow> None)"

section \<open>Notions of the specification\<close>

definition role_line_ci :: "string \<Rightarrow> bool" where
  \<comment> \<open>the specification's reading of a role-prefixed line: the label USER, SYSTEM or
      ASSISTANT in any letter case, then any whitespace, then a colon\<close>
  "role_line_ci s = list_ex (label_then_colon (lower s)) [''user'', ''system'', ''assistant'']"

definition gateway_error :: "failure + (string \<times> json) list \<Rightarrow> bool" where
  \<comment> \<open>the specification's \<^verbatim>\<open>BackendError\<close>: an HTTP error raised with status 502\<close>
  "gateway_error res = (case res of Inl (HTTPException code d) \<Rightarrow> code = 502 | _ \<Rightarrow> False)"

section \<open>Auxiliary predicates\<close>

definition tight :: "string \<Rightarrow> bool" where
  \<comment> \<open>not empty, and no whitespace at either end\<close>
  "tight s = (s \<noteq> [] \<and> \<not> is_space (hd s) \<and> \<not> is_space (last s))"

definition one_line :: "string \<Rightarrow> bool" where
  "one_line s = list_all (\<lambda>c. \<not> is_linebreak c) s"

definition cleaned_lines :: "string \<Rightarrow> string list" where
  \<comment> \<open>the value of \<^verbatim>\<open>cleaned_lines\<close> when the loop of lines 73 to 78 ends\<close>
  "cleaned_lines raw =
     drop_transcript (splitlines (after_final_marker (after_sentinel (strip raw))))"

definition settled :: "string \<Rightarrow> bool" where
  "settled y = (tight y \<and> one_line y \<and> \<not> role_line y \<and> \<not> contains ''ASSISTANT:'' y)"

section \<open>Evaluation rules\<close>

lemmas string_eval =
  strip_def lstrip_def rstrip_def is_space_def whitespace_chars_def is_linebreak_def
  line_boundaries_def lower_def lower_char_def splitlines_def char_of_eq_iff

lemmas cleaner_eval =
  clean_completion_def after_sentinel_def after_final_marker_def rsplit1_def re_split_ci1_def
  first_non_empty_line_def role_line_def role_labels_def label_then_colon_def

lemmas handler_eval =
  chat_completions_def handle_response_def text_output_def clean_value_def completion_def
  response_id_def usage_def response_field_def str_int_def py_int_def digits.simps
  digit_char_def

section \<open>Facts about the string operations\<close>

lemma contains_iff_sublist: "contains sub s \<longleftrightarrow> sublist sub s"
  by (induction s) (auto simp: sublist_Cons_right)

lemma sublist_lstrip: "sublist (lstrip s) s"
  by (simp add: lstrip_def)

lemma sublist_rstrip: "sublist (rstrip s) s"
  by (simp add: rstrip_def sublist_rev_left)

lemma sublist_strip: "sublist (strip s) s"
  unfolding strip_def using sublist_rstrip sublist_lstrip sublist_order.order.trans by blast

lemma strip_tight: "tight s \<Longrightarrow> strip s = s"
  unfolding tight_def strip_def lstrip_def rstrip_def
  by (metis dropWhile_eq_self_iff hd_rev rev_swap)

lemma strip_nonempty_tight: "strip s \<noteq> [] \<Longrightarrow> tight (strip s)"
  unfolding tight_def strip_def lstrip_def rstrip_def
  by (metis dropWhile_eq_Nil_conv dropWhile_eq_self_iff dropWhile_last
    hd_dropWhile hd_rev last_rev rev.simps(1))

lemma linebreak_is_space: "is_linebreak c \<Longrightarrow> is_space c"
  by (auto simp: is_linebreak_def is_space_def line_boundaries_def whitespace_chars_def)

lemma one_line_sublist: "sublist a b \<Longrightarrow> one_line b \<Longrightarrow> one_line a"
  unfolding one_line_def list_all_iff using set_mono_sublist by blast

lemma sublist_of_suffix_part: "sublist l s \<Longrightarrow> sublist l (p @ s)"
  unfolding sublist_def by (metis append.assoc)

lemma splitlines_from_sublist:
  "l \<in> set (splitlines_from cur s) \<Longrightarrow> sublist l (cur @ s)"
proof (induction cur s rule: splitlines_from.induct)
  case (1 cur)
  then show ?case by (auto split: if_splits)
next
  case (2 cur c cs)
  show ?case
  proof (cases "c = CHR 0x0D \<and> cs \<noteq> [] \<and> hd cs = CHR 0x0A")
    case True
    with 2 have "l = cur \<or> sublist l (tl cs)" by auto
    then show ?thesis
    proof
      assume "l = cur" then show ?thesis by simp
    next
      assume "sublist l (tl cs)"
      then have "sublist l cs" using sublist_tl sublist_order.order.trans by blast
      then have "sublist l ((cur @ [c]) @ cs)" by (rule sublist_of_suffix_part)
      then show ?thesis by simp
    qed
  next
    case False
    note nocr = this
    show ?thesis
    proof (cases "is_linebreak c")
      case True
      with 2 nocr have "l = cur \<or> sublist l cs" by auto
      then show ?thesis
      proof
        assume "l = cur" then show ?thesis by simp
      next
        assume "sublist l cs"
        then have "sublist l ((cur @ [c]) @ cs)" by (rule sublist_of_suffix_part)
        then show ?thesis by simp
      qed
    next
      case False
      with 2 nocr have "sublist l ((cur @ [c]) @ cs)" by auto
      then show ?thesis by simp
    qed
  qed
qed

lemma splitlines_from_one_line:
  "one_line cur \<Longrightarrow> l \<in> set (splitlines_from cur s) \<Longrightarrow> one_line l"
proof (induction cur s rule: splitlines_from.induct)
  case (1 cur)
  then show ?case by (auto split: if_splits)
next
  case (2 cur c cs)
  then show ?case
    by (auto simp: one_line_def split: if_splits)
qed

lemma splitlines_sublist: "l \<in> set (splitlines s) \<Longrightarrow> sublist l s"
  using splitlines_from_sublist [of l "[]" s] by (simp add: splitlines_def)

lemma splitlines_one_line: "l \<in> set (splitlines s) \<Longrightarrow> one_line l"
  using splitlines_from_one_line [of "[]" l s] by (simp add: splitlines_def one_line_def)

lemma splitlines_from_line_then_LF:
  "one_line l \<Longrightarrow>
   splitlines_from cur (l @ CHR 0x0A # r) = (cur @ l) # splitlines_from [] r"
proof (induction l arbitrary: cur)
  case Nil
  then show ?case by (simp add: is_linebreak_def line_boundaries_def)
next
  case (Cons c l)
  then have "\<not> is_linebreak c" and "one_line l" by (simp_all add: one_line_def)
  moreover from \<open>\<not> is_linebreak c\<close> have "c \<noteq> CHR 0x0D"
    by (auto simp: is_linebreak_def line_boundaries_def)
  ultimately show ?case using Cons.IH [of "cur @ [c]"] by simp
qed

lemma splitlines_from_one_line_only:
  "one_line l \<Longrightarrow> splitlines_from cur l = (if cur @ l = [] then [] else [cur @ l])"
proof (induction l arbitrary: cur)
  case Nil
  then show ?case by simp
next
  case (Cons c l)
  then have "\<not> is_linebreak c" and "one_line l" by (simp_all add: one_line_def)
  moreover from \<open>\<not> is_linebreak c\<close> have "c \<noteq> CHR 0x0D"
    by (auto simp: is_linebreak_def line_boundaries_def)
  ultimately show ?case using Cons.IH [of "cur @ [c]"] by simp
qed

lemma splitlines_join_first:
  "one_line x \<Longrightarrow> x \<noteq> [] \<Longrightarrow> \<exists>rest. splitlines (join [CHR 0x0A] (x # xs)) = x # rest"
proof (cases xs)
  case Nil
  assume "one_line x" "x \<noteq> []"
  then show ?thesis using Nil by (simp add: splitlines_def splitlines_from_one_line_only)
next
  case (Cons y ys)
  assume "one_line x" "x \<noteq> []"
  then show ?thesis using Cons
    by (simp add: splitlines_def splitlines_from_line_then_LF)
qed

lemma tight_join:
  "ls \<noteq> [] \<Longrightarrow> list_all tight ls \<Longrightarrow> tight (join sep ls)"
proof (induction sep ls rule: join.induct)
  case (1 sep)
  then show ?case by simp
next
  case (2 sep x)
  then show ?case by simp
next
  case (3 sep x y ys)
  then have "tight (join sep (y # ys))" and "tight x" by simp_all
  then show ?case by (auto simp: tight_def)
qed


section \<open>Facts about the cleaner\<close>

lemma rsplit_last_None: "sep \<noteq> [] \<Longrightarrow> rsplit_last sep s = None \<longleftrightarrow> \<not> contains sep s"
  by (induction s) (auto split: option.splits)

lemma rsplit_last_after:
  "sep \<noteq> [] \<Longrightarrow> rsplit_last sep s = Some (b, a) \<Longrightarrow> suffix a s \<and> \<not> contains sep a"
proof (induction s arbitrary: b a)
  case Nil
  then show ?case by simp
next
  case (Cons c cs)
  show ?case
  proof (cases "rsplit_last sep cs")
    case None
    with Cons.prems have a: "a = drop (length sep) (c # cs)" by (auto split: if_splits)
    from Cons.prems(1) obtain n where n: "length sep = Suc n" by (cases sep) auto
    have sfx: "suffix a cs" using a n by (simp add: suffix_drop)
    have "\<not> contains sep cs" using None Cons.prems(1) by (simp add: rsplit_last_None)
    then have "\<not> contains sep a"
      using sfx contains_iff_sublist suffix_imp_sublist sublist_order.order.trans by blast
    moreover have "suffix a (c # cs)" using sfx by (simp add: suffix_Cons)
    ultimately show ?thesis by simp
  next
    case (Some p)
    obtain b' a' where p: "p = (b', a')" by (cases p)
    with Some Cons.prems have "a = a'" by simp
    with Cons.IH [OF Cons.prems(1), of b' a'] Some p show ?thesis by (simp add: suffix_Cons)
  qed
qed

lemma split_first_ci_after: "split_first_ci pat s = Some (b, a) \<Longrightarrow> suffix a s"
proof (induction s arbitrary: b a)
  case Nil
  then show ?case by simp
next
  case (Cons c cs)
  show ?case
  proof (cases "prefix pat (lower (c # cs))")
    case True
    with Cons.prems have "a = drop (length pat) (c # cs)" by simp
    then show ?thesis by (simp only: suffix_drop)
  next
    case False
    with Cons.prems obtain b' where "split_first_ci pat cs = Some (b', a)"
      by (auto split: option.splits)
    then have "suffix a cs" by (rule Cons.IH)
    then show ?thesis by (simp add: suffix_Cons)
  qed
qed

lemma after_sentinel_sublist: "sublist (after_sentinel t) t"
proof (cases "contains ''ASSISTANT:'' t")
  case False
  then show ?thesis by (simp add: after_sentinel_def)
next
  case True
  then obtain b a where ba: "rsplit_last ''ASSISTANT:'' t = Some (b, a)"
    using rsplit_last_None [of "''ASSISTANT:''" t] by (cases "rsplit_last ''ASSISTANT:'' t") auto
  then have "suffix a t" using rsplit_last_after [of "''ASSISTANT:''" t b a] by simp
  then have "sublist (strip a) t"
    using sublist_strip suffix_imp_sublist sublist_order.order.trans by blast
  then show ?thesis using True ba by (simp add: after_sentinel_def rsplit1_def)
qed

lemma after_sentinel_free: "\<not> contains ''ASSISTANT:'' (after_sentinel t)"
proof (cases "contains ''ASSISTANT:'' t")
  case False
  then show ?thesis by (simp add: after_sentinel_def)
next
  case True
  then obtain b a where ba: "rsplit_last ''ASSISTANT:'' t = Some (b, a)"
    using rsplit_last_None [of "''ASSISTANT:''" t] by (cases "rsplit_last ''ASSISTANT:'' t") auto
  then have "\<not> contains ''ASSISTANT:'' a"
    using rsplit_last_after [of "''ASSISTANT:''" t b a] by simp
  then have "\<not> contains ''ASSISTANT:'' (strip a)"
    using sublist_strip contains_iff_sublist sublist_order.order.trans by blast
  then show ?thesis using True ba by (simp add: after_sentinel_def rsplit1_def)
qed

lemma after_final_marker_sublist: "sublist (after_final_marker t) t"
proof (cases "split_first_ci ''assistantfinal'' t")
  case None
  then show ?thesis by (simp add: after_final_marker_def re_split_ci1_def)
next
  case (Some p)
  obtain b a where p: "p = (b, a)" by (cases p)
  then have "suffix a t" using Some split_first_ci_after by blast
  then have "sublist (strip a) t"
    using sublist_strip suffix_imp_sublist sublist_order.order.trans by blast
  then show ?thesis using Some p by (simp add: after_final_marker_def re_split_ci1_def)
qed

lemma drop_transcript_member:
  "x \<in> set (drop_transcript ls) \<Longrightarrow>
   \<exists>l \<in> set ls. x = strip l \<and> x \<noteq> [] \<and> \<not> role_line x"
  by (induction ls) (auto simp: Let_def split: if_splits)

lemma cleaned_lines_settled: "x \<in> set (cleaned_lines t) \<Longrightarrow> settled x"
proof -
  assume "x \<in> set (cleaned_lines t)"
  then obtain l where l: "l \<in> set (splitlines (after_final_marker (after_sentinel (strip t))))"
    and x: "x = strip l" "x \<noteq> []" "\<not> role_line x"
    unfolding cleaned_lines_def using drop_transcript_member by blast
  have "tight x" using x strip_nonempty_tight by auto
  moreover have "one_line x" using x(1) l splitlines_one_line sublist_strip one_line_sublist by blast
  moreover have "\<not> contains ''ASSISTANT:'' x"
  proof -
    have "sublist x l" using x(1) sublist_strip by simp
    also have "sublist l (after_final_marker (after_sentinel (strip t)))"
      using l by (rule splitlines_sublist)
    also have "sublist \<dots> (after_sentinel (strip t))" by (rule after_final_marker_sublist)
    finally show ?thesis using after_sentinel_free contains_iff_sublist sublist_order.order.trans by blast
  qed
  ultimately show ?thesis using x(3) by (simp add: settled_def)
qed

lemma first_line_of_join:
  assumes "ls \<noteq> []" "list_all tight ls" "list_all one_line ls"
  shows "first_non_empty_line (strip (join [CHR 0x0A] ls)) = hd ls"
proof -
  obtain x xs where ls: "ls = x # xs" using assms(1) by (cases ls) auto
  have "tight (join [CHR 0x0A] ls)" using assms(1,2) by (rule tight_join)
  then have "strip (join [CHR 0x0A] ls) = join [CHR 0x0A] ls" by (rule strip_tight)
  moreover have "tight x" "one_line x" using assms(2,3) ls by simp_all
  moreover from this obtain rest where "splitlines (join [CHR 0x0A] (x # xs)) = x # rest"
    using splitlines_join_first [of x xs] by (auto simp: tight_def)
  ultimately show ?thesis using ls strip_tight [of x]
    by (simp add: first_non_empty_line_def tight_def)
qed

lemma clean_completion_cases:
  "clean_completion t = (case cleaned_lines t of [] \<Rightarrow> [] | x # xs \<Rightarrow> x)"
proof (cases "t = []")
  case True
  then show ?thesis
    by (simp add: clean_completion_def cleaned_lines_def strip_def lstrip_def rstrip_def
        after_sentinel_def after_final_marker_def lower_def splitlines_def)
next
  case False
  show ?thesis
  proof (cases "cleaned_lines t")
    case Nil
    then show ?thesis using False
      by (simp add: clean_completion_def cleaned_lines_def strip_def lstrip_def rstrip_def
          first_non_empty_line_def splitlines_def)
  next
    case (Cons x xs)
    have "\<forall>y \<in> set (cleaned_lines t). settled y" using cleaned_lines_settled by blast
    then have "list_all tight (cleaned_lines t)" "list_all one_line (cleaned_lines t)"
      by (simp_all add: list_all_iff settled_def)
    then have "first_non_empty_line (strip (join [CHR 0x0A] (cleaned_lines t))) = x"
      using first_line_of_join [of "cleaned_lines t"] Cons by simp
    moreover have "x \<noteq> []" using cleaned_lines_settled [of x t] Cons by (simp add: settled_def tight_def)
    ultimately show ?thesis using False Cons
      by (simp add: clean_completion_def cleaned_lines_def Let_def)
  qed
qed

lemma clean_completion_result: "clean_completion t = [] \<or> settled (clean_completion t)"
  using cleaned_lines_settled [of _ t]
  by (cases "cleaned_lines t") (auto simp: clean_completion_cases)

lemma clean_completion_settled:
  assumes "settled y" "\<not> contains ''assistantfinal'' (lower y)"
  shows "clean_completion y = y"
proof -
  have y: "y \<noteq> []" "strip y = y" "one_line y" "\<not> role_line y"
    using assms(1) strip_tight by (auto simp: settled_def tight_def)
  have "after_sentinel y = y" using assms(1) by (simp add: settled_def after_sentinel_def)
  moreover have "after_final_marker y = y" using assms(2) by (simp add: after_final_marker_def)
  moreover have "splitlines y = [y]" using y by (simp add: splitlines_def splitlines_from_one_line_only)
  ultimately have "cleaned_lines y = [y]" using y by (simp add: cleaned_lines_def)
  then show ?thesis by (simp add: clean_completion_cases)
qed

section \<open>Facts about the decimal rendering and the handler\<close>

lemma digit_char_inj: "a < 10 \<Longrightarrow> b < 10 \<Longrightarrow> digit_char a = digit_char b \<Longrightarrow> a = b"
  by (simp add: digit_char_def)

lemma digit_char_not_minus: "d < 10 \<Longrightarrow> digit_char d \<noteq> CHR ''-''"
  by (simp add: digit_char_def char_of_eq_iff take_bit_eq_mod)

lemma digits_nonempty: "digits n \<noteq> []"
  by (subst digits.simps) simp

lemma minus_not_in_digits: "CHR ''-'' \<notin> set (digits n)"
proof (induction n rule: digits.induct)
  case (1 n)
  show ?case
  proof (cases "n < 10")
    case True
    then show ?thesis using digit_char_not_minus [of n] by (subst digits.simps) auto
  next
    case False
    then have "CHR ''-'' \<notin> set (digits (n div 10))" using 1 by simp
    moreover have "digit_char (n mod 10) \<noteq> CHR ''-''" by (rule digit_char_not_minus) simp
    ultimately show ?thesis using False by (subst digits.simps) auto
  qed
qed

lemma digits_inj: "digits n = digits m \<Longrightarrow> n = m"
proof (induction n arbitrary: m rule: digits.induct)
  case (1 n)
  show ?case
  proof (cases "n < 10")
    case True
    note n = this
    show ?thesis
    proof (cases "m < 10")
      case True
      with n 1(2) show ?thesis using digit_char_inj [of n m]
        by (simp add: digits.simps [of n] digits.simps [of m])
    next
      case False
      with n 1(2) have "digits (m div 10) = []"
        by (simp add: digits.simps [of n] digits.simps [of m])
      then show ?thesis using digits_nonempty by blast
    qed
  next
    case False
    note n = this
    show ?thesis
    proof (cases "m < 10")
      case True
      with n 1(2) have "digits (n div 10) = []"
        by (simp add: digits.simps [of n] digits.simps [of m])
      then show ?thesis using digits_nonempty by blast
    next
      case False
      with n 1(2) have eq: "digits (n div 10) = digits (m div 10)"
        and d: "digit_char (n mod 10) = digit_char (m mod 10)"
        by (simp_all add: digits.simps [of n] digits.simps [of m])
      from eq have "n div 10 = m div 10" using 1(1) n by simp
      moreover from d have "n mod 10 = m mod 10" using digit_char_inj by simp
      ultimately show ?thesis by (metis div_mult_mod_eq)
    qed
  qed
qed

lemma str_int_inj: "str_int i = str_int j \<Longrightarrow> i = j"
proof -
  assume eq: "str_int i = str_int j"
  have hd_digits: "\<And>n. hd (digits n) \<noteq> CHR ''-''"
    using minus_not_in_digits digits_nonempty by (metis list.set_sel(1))
  show ?thesis
  proof (cases "i < 0")
    case True
    note i = this
    show ?thesis
    proof (cases "j < 0")
      case True
      with i eq have "digits (nat (- i)) = digits (nat (- j))" by (simp add: str_int_def)
      then have "nat (- i) = nat (- j)" by (rule digits_inj)
      with i True show ?thesis by simp
    next
      case False
      with i eq have "CHR ''-'' # digits (nat (- i)) = digits (nat j)" by (simp add: str_int_def)
      then have "hd (digits (nat j)) = CHR ''-''" by (metis list.sel(1))
      then show ?thesis using hd_digits by blast
    qed
  next
    case False
    note i = this
    show ?thesis
    proof (cases "j < 0")
      case True
      with i eq have "digits (nat i) = CHR ''-'' # digits (nat (- j))" by (simp add: str_int_def)
      then have "hd (digits (nat i)) = CHR ''-''" by (metis list.sel(1))
      then show ?thesis using hd_digits by blast
    next
      case False
      with i eq have "digits (nat i) = digits (nat j)" by (simp add: str_int_def)
      then have "nat i = nat j" by (rule digits_inj)
      with i False show ?thesis by simp
    qed
  qed
qed

lemma response_id_eq:
  "response_id w1 = response_id w2 \<longleftrightarrow> py_int (time_id_ms w1) = py_int (time_id_ms w2)"
  using str_int_inj by (auto simp: response_id_def)

lemma success_is_completion:
  "fst (chat_completions w req) = Inr r \<Longrightarrow> \<exists>txt. r = completion w req txt"
  by (auto simp: chat_completions_def handle_response_def
      split: if_splits post_outcome.splits option.splits sum.splits)

lemma role_line_spelled:
  assumes "lab \<in> set role_labels" "list_all is_space ws"
  shows "role_line (lab @ ws @ CHR '':'' # rest)"
proof -
  have "dropWhile is_space (ws @ CHR '':'' # rest) = dropWhile is_space (CHR '':'' # rest)"
    using assms(2) by (intro dropWhile_append2) (simp add: list_all_iff)
  also have "\<dots> = CHR '':'' # rest" by (simp add: is_space_def whitespace_chars_def)
  finally have "label_then_colon (lab @ ws @ CHR '':'' # rest) lab"
    by (simp add: label_then_colon_def)
  then show ?thesis using assms(1) by (auto simp: role_line_def list_ex_iff)
qed

lemma join_lines_then_last:
  "join [c] (xs @ [z]) = concat (map (\<lambda>x. x @ [c]) xs) @ z"
proof (induction xs)
  case Nil
  then show ?case by simp
next
  case (Cons x xs)
  then show ?case by (cases "xs @ [z]") simp_all
qed

lemma upper_role_names:
  "upper ''system'' = ''SYSTEM''" "upper ''user'' = ''USER''"
  "upper ''assistant'' = ''ASSISTANT''" "upper ''tool'' = ''TOOL''"
  by (simp_all add: upper_def upper_char_def char_of_eq_iff)

lemma strip_strip: "strip (strip s) = strip s"
proof (cases "strip s = []")
  case True
  have "strip [] = []" by (simp add: strip_def lstrip_def rstrip_def)
  then show ?thesis using True by simp
next
  case False
  then have "tight (strip s)" by (rule strip_nonempty_tight)
  then show ?thesis by (rule strip_tight)
qed

lemma drop_transcript_filter:
  "drop_transcript ls = filter (\<lambda>x. \<not> role_line x \<and> x \<noteq> []) (map strip ls)"
  by (induction ls) (simp_all add: Let_def)

lemma handle_response_gateway_error:
  "gateway_error (handle_response w req r) \<longleftrightarrow> status_code r \<noteq> 200"
  by (auto simp: gateway_error_def handle_response_def text_output_def clean_value_def
      split: option.splits sum.splits json.splits)

lemma outbound_parameters:
  "stream req \<noteq> Some True \<Longrightarrow>
   map payload_parameters (snd (chat_completions w req)) = [Some (params req)]"
  by (simp add: chat_completions_def the_call_def payload_def payload_parameters_def
      split: post_outcome.splits)

section \<open>The completion cleaner: claims C1, C2 and C6\<close>

text \<open>
  Claim C1 says that cleaning is idempotent on every string. The cleaner cuts at the
  \<^emph>\<open>first\<close> final marker only (\<^verbatim>\<open>maxsplit=1\<close>), so a raw text with two markers is
  cleaned to a line that still holds the second one, and cleaning that line again cuts
  once more: the two results differ.
\<close>

theorem clean_completion_twice_differs:
  "clean_completion ''draft assistantfinal plan assistantfinal 42'' = ''plan assistantfinal 42''
   \<and> clean_completion (clean_completion ''draft assistantfinal plan assistantfinal 42'') = ''42''
   \<and> clean_completion (clean_completion ''draft assistantfinal plan assistantfinal 42'')
       \<noteq> clean_completion ''draft assistantfinal plan assistantfinal 42''"
  by (simp add: string_eval cleaner_eval)

text \<open>
  Claim C1 as amended: whenever the cleaned text holds no final marker (in any letter
  case), cleaning it again changes nothing.
\<close>

theorem clean_completion_idempotent_without_marker:
  "\<not> contains ''assistantfinal'' (lower (clean_completion x)) \<Longrightarrow>
   clean_completion (clean_completion x) = clean_completion x"
  using clean_completion_result [of x] clean_completion_settled [of "clean_completion x"]
  by (auto simp: clean_completion_def)

theorem clean_completion_idempotent_without_marker_witness:
  "\<not> contains ''assistantfinal'' (lower (clean_completion ''  Line one''))
   \<and> clean_completion (clean_completion ''  Line one'') = clean_completion ''  Line one''"
proof -
  have h: "\<not> contains ''assistantfinal'' (lower (clean_completion ''  Line one''))"
    by (simp add: string_eval cleaner_eval)
  show ?thesis using h clean_completion_idempotent_without_marker [OF h] by simp
qed

text \<open>
  Claim C2 says that the filtering step drops every line whose trimmed form starts with
  USER, SYSTEM or ASSISTANT in any letter case, then optional whitespace and a colon. The
  pattern at line 75 lists six spellings and ignores no case: the line \<^verbatim>\<open>user: hi\<close> is
  such a line in the claim's reading, the loop keeps it, and the cleaner returns it.
\<close>

theorem lower_case_role_line_kept:
  "role_line_ci (strip ''user: hi'') \<and>
   drop_transcript (splitlines ''user: hi'') = [''user: hi''] \<and>
   clean_completion ''user: hi'' = ''user: hi''"
  by (simp add: string_eval cleaner_eval role_line_ci_def)

text \<open>
  Claim C2 as amended: the filtering step keeps exactly the trimmed forms of its lines
  that are not empty and do not match the pattern, in their order; a text that is one of
  the six spellings USER, User, SYSTEM, System, ASSISTANT, Assistant, followed by any
  whitespace and a colon, matches the pattern; and so no kept line is such a text, before
  or after trimming it again.
\<close>

theorem drop_transcript_drops_role_lines:
  "lab \<in> set role_labels \<Longrightarrow> list_all is_space ws \<Longrightarrow>
   role_line (lab @ ws @ CHR '':'' # rest) \<and>
   drop_transcript ls = filter (\<lambda>x. \<not> role_line x \<and> x \<noteq> []) (map strip ls) \<and>
   list_all (\<lambda>x. x \<noteq> lab @ ws @ CHR '':'' # rest \<and> strip x \<noteq> lab @ ws @ CHR '':'' # rest
                \<and> \<not> role_line (strip x))
     (drop_transcript ls)"
proof (intro conjI)
  assume lab: "lab \<in> set role_labels" and ws: "list_all is_space ws"
  show spelled: "role_line (lab @ ws @ CHR '':'' # rest)"
    using lab ws by (rule role_line_spelled)
  show "drop_transcript ls = filter (\<lambda>x. \<not> role_line x \<and> x \<noteq> []) (map strip ls)"
    by (rule drop_transcript_filter)
  have "x \<noteq> lab @ ws @ CHR '':'' # rest \<and> strip x \<noteq> lab @ ws @ CHR '':'' # rest
          \<and> \<not> role_line (strip x)"
    if "x \<in> set (drop_transcript ls)" for x
  proof -
    from that obtain l where "x = strip l" "\<not> role_line x"
      using drop_transcript_member by blast
    then have "strip x = x" "\<not> role_line x" by (simp_all add: strip_strip)
    then show ?thesis using spelled by auto
  qed
  then show "list_all (\<lambda>x. x \<noteq> lab @ ws @ CHR '':'' # rest
                \<and> strip x \<noteq> lab @ ws @ CHR '':'' # rest \<and> \<not> role_line (strip x))
     (drop_transcript ls)"
    by (simp add: list_all_iff)
qed

theorem drop_transcript_drops_role_lines_witness:
  "''User'' \<in> set role_labels \<and> list_all is_space '' '' \<and>
   role_line (''User'' @ '' '' @ CHR '':'' # '' hi'') \<and>
   drop_transcript ['' User : hi '', '' ok '', ''SYSTEM:'', ''''] = [''ok'']"
proof -
  have a: "''User'' \<in> set role_labels" by (simp add: role_labels_def)
  have b: "list_all is_space '' ''" by (simp add: is_space_def whitespace_chars_def)
  have c: "filter (\<lambda>x. \<not> role_line x \<and> x \<noteq> [])
             (map strip ['' User : hi '', '' ok '', ''SYSTEM:'', '''']) = [''ok'']"
    by (simp add: string_eval role_line_def role_labels_def label_then_colon_def)
  show ?thesis
    using a b c
      drop_transcript_drops_role_lines
        [OF a b, of "'' hi''" "['' User : hi '', '' ok '', ''SYSTEM:'', '''']"]
    by (simp only: simp_thms)
qed

text \<open>
  Claim C6 says that the output of the cleaner never holds a line that starts with a
  role label. In the specification a role label is USER, SYSTEM or ASSISTANT in any
  letter case; the cleaner's pattern knows six spellings only, so the raw text
  \<^verbatim>\<open>system : be brief\<close> is returned as it is, and it is a role-prefixed line in the
  specification's reading.
\<close>

theorem lower_case_role_line_in_output:
  "clean_completion ''system : be brief'' = ''system : be brief'' \<and>
   splitlines (clean_completion ''system : be brief'') = [''system : be brief''] \<and>
   role_line_ci (strip ''system : be brief'')"
  by (simp add: string_eval cleaner_eval role_line_ci_def)

text \<open>
  Claim C6 as amended: for every input, the output of the cleaner does not contain the
  sentinel \<^verbatim>\<open>ASSISTANT:\<close>, and neither the output nor the trimmed form of any of its lines
  is one of the six spellings USER, User, SYSTEM, System, ASSISTANT, Assistant followed by
  any whitespace, a colon and any text.
\<close>

theorem clean_completion_output_free_of_labels:
  "lab \<in> set role_labels \<Longrightarrow> list_all is_space ws \<Longrightarrow>
   \<not> contains ''ASSISTANT:'' (clean_completion x) \<and>
   clean_completion x \<noteq> lab @ ws @ CHR '':'' # rest \<and>
   list_all (\<lambda>l. strip l \<noteq> lab @ ws @ CHR '':'' # rest \<and> \<not> role_line (strip l))
     (splitlines (clean_completion x))"
proof -
  assume "lab \<in> set role_labels" and "list_all is_space ws"
  then have spelled: "role_line (lab @ ws @ CHR '':'' # rest)" by (rule role_line_spelled)
  show ?thesis
  proof (cases "clean_completion x = []")
    case True
    then show ?thesis by (simp add: splitlines_def)
  next
    case False
    then have s: "settled (clean_completion x)" using clean_completion_result by blast
    then have "splitlines (clean_completion x) = [clean_completion x]"
      by (simp add: settled_def tight_def splitlines_def splitlines_from_one_line_only)
    moreover have "strip (clean_completion x) = clean_completion x"
      using s strip_tight by (simp add: settled_def)
    ultimately show ?thesis using s spelled by (auto simp: settled_def)
  qed
qed

theorem clean_completion_output_free_of_labels_witness:
  "''Assistant'' \<in> set role_labels \<and> list_all is_space '' '' \<and>
   clean_completion (''USER: a'' @ [CHR 0x0A] @ '' Assistant : b'' @ [CHR 0x0A] @ ''fine'')
     = ''fine'' \<and>
   \<not> contains ''ASSISTANT:''
       (clean_completion (''USER: a'' @ [CHR 0x0A] @ '' Assistant : b'' @ [CHR 0x0A] @ ''fine'')) \<and>
   clean_completion (''USER: a'' @ [CHR 0x0A] @ '' Assistant : b'' @ [CHR 0x0A] @ ''fine'')
     \<noteq> ''Assistant'' @ '' '' @ CHR '':'' # '' b''"
proof -
  have a: "''Assistant'' \<in> set role_labels" by (simp add: role_labels_def)
  have b: "list_all is_space '' ''" by (simp add: is_space_def whitespace_chars_def)
  have c: "clean_completion (''USER: a'' @ [CHR 0x0A] @ '' Assistant : b'' @ [CHR 0x0A] @ ''fine'')
     = ''fine''"
    by (simp add: string_eval cleaner_eval)
  show ?thesis
    using a b c
      clean_completion_output_free_of_labels
        [OF a b, of "''USER: a'' @ [CHR 0x0A] @ '' Assistant : b'' @ [CHR 0x0A] @ ''fine''" "'' b''"]
    by (simp only: simp_thms)
qed

section \<open>The prompt builder: claim C9\<close>

text \<open>
  Claim C9: the prompt is one line per turn, the upper-cased role, a colon, a space and
  the content, each followed by one newline, and then the sentinel \<^verbatim>\<open>ASSISTANT:\<close> with no
  newline after it. The role is trimmed and lower-cased before it is matched against the
  four known names, and is USER when it matches none. The two-turn example of the
  specification gives the prompt it states.
\<close>

theorem messages_to_prompt_form:
  "messages_to_prompt ms =
     concat (map (\<lambda>m. upper (normalize_role (role m)) @ '': '' @ content m @ [CHR 0x0A]) ms)
     @ ''ASSISTANT:''
   \<and> upper (normalize_role r) =
       (if lower (strip r) = ''system'' then ''SYSTEM''
        else if lower (strip r) = ''assistant'' then ''ASSISTANT''
        else if lower (strip r) = ''tool'' then ''TOOL''
        else ''USER'')
   \<and> messages_to_prompt
        [\<lparr>role = ''user'', content = ''Hi''\<rparr>, \<lparr>role = ''assistant'', content = ''Hello''\<rparr>]
      = ''USER: Hi'' @ [CHR 0x0A] @ ''ASSISTANT: Hello'' @ [CHR 0x0A] @ ''ASSISTANT:''"
proof (intro conjI)
  show form: "messages_to_prompt ms =
     concat (map (\<lambda>m. upper (normalize_role (role m)) @ '': '' @ content m @ [CHR 0x0A]) ms)
     @ ''ASSISTANT:''" for ms
    by (simp add: messages_to_prompt_def join_lines_then_last prompt_line_def comp_def)
  show "upper (normalize_role r) =
       (if lower (strip r) = ''system'' then ''SYSTEM''
        else if lower (strip r) = ''assistant'' then ''ASSISTANT''
        else if lower (strip r) = ''tool'' then ''TOOL''
        else ''USER'')"
    by (auto simp: normalize_role_def known_roles_def Let_def upper_role_names)
  have "normalize_role ''user'' = ''user''" "normalize_role ''assistant'' = ''assistant''"
    by (simp_all add: normalize_role_def known_roles_def string_eval)
  then show "messages_to_prompt
        [\<lparr>role = ''user'', content = ''Hi''\<rparr>, \<lparr>role = ''assistant'', content = ''Hello''\<rparr>]
      = ''USER: Hi'' @ [CHR 0x0A] @ ''ASSISTANT: Hello'' @ [CHR 0x0A] @ ''ASSISTANT:''"
    by (simp add: form upper_role_names)
qed

theorem messages_to_prompt_form_witness:
  "messages_to_prompt [\<lparr>role = '' System'', content = ''Be brief.''\<rparr>,
                       \<lparr>role = ''bot'', content = ''''\<rparr>]
     = ''SYSTEM: Be brief.'' @ [CHR 0x0A] @ ''USER: '' @ [CHR 0x0A] @ ''ASSISTANT:''"
proof -
  have "upper (normalize_role '' System'') = ''SYSTEM''" "upper (normalize_role ''bot'') = ''USER''"
    using messages_to_prompt_form [of "[]" "'' System''"] messages_to_prompt_form [of "[]" "''bot''"]
    by (simp_all add: string_eval)
  then show ?thesis
    using messages_to_prompt_form
      [of "[\<lparr>role = '' System'', content = ''Be brief.''\<rparr>, \<lparr>role = ''bot'', content = ''''\<rparr>]" "[]"]
    by simp
qed

section \<open>The handler: claims C3, C4, C5, C7, C8 and C10\<close>

text \<open>
  Claim C8: a request with \<^verbatim>\<open>stream\<close> true fails with the HTTP error 400 of line 88, and
  the handler has issued no outbound call, whatever the outside world holds.
\<close>

theorem stream_rejected_before_backend:
  "stream req = Some True \<Longrightarrow>
   chat_completions w req =
     (Inl (HTTPException 400 (JStr ''stream=true not supported in this minimal adapter yet'')),
      [])"
  by (simp add: chat_completions_def)

theorem stream_rejected_before_backend_witness:
  "stream \<lparr>model = None, messages = [\<lparr>role = ''user'', content = ''Hi''\<rparr>],
           temperature = Some 0, max_tokens = Some 256, stream = Some True, stop = None\<rparr>
     = Some True
   \<and> chat_completions
       \<lparr>TRITON_BASE = ''http://172.17.0.2:8000'', TRITON_MODEL = ''vllm_model'',
         post_result = Returned \<lparr>status_code = 200, body = ''{}'', json_body = Some (JObj [])\<rparr>,
         time_before = 10, time_after = 11, time_id_ms = 12000, time_created = 13\<rparr>
       \<lparr>model = None, messages = [\<lparr>role = ''user'', content = ''Hi''\<rparr>],
         temperature = Some 0, max_tokens = Some 256, stream = Some True, stop = None\<rparr>
     = (Inl (HTTPException 400 (JStr ''stream=true not supported in this minimal adapter yet'')),
        [])"
proof -
  have h: "stream \<lparr>model = None, messages = [\<lparr>role = ''user'', content = ''Hi''\<rparr>],
           temperature = Some 0, max_tokens = Some 256, stream = Some True, stop = None\<rparr>
     = Some True" by simp
  show ?thesis using h stream_rejected_before_backend [OF h] by simp
qed

text \<open>
  Claim C3 says that a failed or timed-out outbound call reaches the caller as a 502
  gateway error. The handler has no \<^verbatim>\<open>try\<close> statement: when \<^verbatim>\<open>requests.post\<close> raises, the
  exception leaves the handler as it is, and no HTTP error with status 502 is raised.
  Here the call was issued and timed out.
\<close>

theorem transport_failure_not_gateway_error:
  "chat_completions
     \<lparr>TRITON_BASE = ''http://172.17.0.2:8000'', TRITON_MODEL = ''vllm_model'',
       post_result = Raised ''ReadTimeout'',
       time_before = 10, time_after = 310, time_id_ms = 310000, time_created = 310\<rparr>
     \<lparr>model = None, messages = [\<lparr>role = ''user'', content = ''Hi''\<rparr>],
       temperature = Some 0, max_tokens = Some 256, stream = Some False, stop = None\<rparr>
   = (Inl (Uncaught ''ReadTimeout''),
      [\<lparr>call_url = ''http://172.17.0.2:8000/v2/models/vllm_model/generate'',
        call_json =
          JObj [(''text_input'', JStr (''USER: Hi'' @ [CHR 0x0A] @ ''ASSISTANT:'')),
                (''parameters'',
                 JObj [(''stream'', JBool False), (''temperature'', JFloat 0),
                       (''max_tokens'', JInt 256)])],
        call_timeout = 300\<rparr>])
   \<and> \<not> gateway_error (Inl (Uncaught ''ReadTimeout''))"
  by (simp add: chat_completions_def the_call_def generate_url_def payload_def params_def
      stop_val_def messages_to_prompt_def prompt_line_def normalize_role_def known_roles_def
      upper_role_names gateway_error_def string_eval)

text \<open>
  Claim C3 as amended: when the outbound call raises (the connection fails or the
  timeout of 300 seconds passes), the handler raises no HTTP error of its own; the
  exception of the HTTP client leaves the handler uncaught, after the one outbound call.
  The handler ends in a 502 gateway error exactly when the request does not ask for
  streaming and the backend returned a response whose status is not 200; the error then
  carries that status and the body of the response.
\<close>

theorem transport_failure_propagates:
  "(stream req \<noteq> Some True \<and> post_result w = Raised e \<longrightarrow>
      chat_completions w req = (Inl (Uncaught e), [the_call w req]) \<and>
      \<not> gateway_error (fst (chat_completions w req))) \<and>
   (gateway_error (fst (chat_completions w req)) \<longleftrightarrow>
      stream req \<noteq> Some True \<and>
      (case post_result w of Raised e' \<Rightarrow> False | Returned r' \<Rightarrow> status_code r' \<noteq> 200)) \<and>
   (stream req \<noteq> Some True \<and> post_result w = Returned r \<and> status_code r \<noteq> 200 \<longrightarrow>
      chat_completions w req =
        (Inl (HTTPException 502
                (JObj [(''triton_status'', JInt (status_code r)),
                       (''triton_body'', JStr (body r))])),
         [the_call w req]))"
proof (intro conjI)
  show "stream req \<noteq> Some True \<and> post_result w = Raised e \<longrightarrow>
      chat_completions w req = (Inl (Uncaught e), [the_call w req]) \<and>
      \<not> gateway_error (fst (chat_completions w req))"
    by (simp add: chat_completions_def gateway_error_def)
  show "gateway_error (fst (chat_completions w req)) \<longleftrightarrow>
      stream req \<noteq> Some True \<and>
      (case post_result w of Raised e' \<Rightarrow> False | Returned r' \<Rightarrow> status_code r' \<noteq> 200)"
  proof (cases "stream req = Some True")
    case True
    then show ?thesis by (simp add: chat_completions_def gateway_error_def)
  next
    case False
    then show ?thesis
      using handle_response_gateway_error [of w req]
      by (cases "post_result w") (simp_all add: chat_completions_def gateway_error_def)
  qed
  show "stream req \<noteq> Some True \<and> post_result w = Returned r \<and> status_code r \<noteq> 200 \<longrightarrow>
      chat_completions w req =
        (Inl (HTTPException 502
                (JObj [(''triton_status'', JInt (status_code r)),
                       (''triton_body'', JStr (body r))])),
         [the_call w req])"
    by (simp add: chat_completions_def handle_response_def)
qed

theorem transport_failure_propagates_witness:
  "fst (chat_completions
          \<lparr>TRITON_BASE = ''http://t:8000'', TRITON_MODEL = ''m'',
            post_result = Raised ''ConnectionError'',
            time_before = 1, time_after = 2, time_id_ms = 3000, time_created = 4\<rparr>
          \<lparr>model = None, messages = [], temperature = None, max_tokens = None,
            stream = None, stop = None\<rparr>)
     = Inl (Uncaught ''ConnectionError'')
   \<and> \<not> gateway_error (fst (chat_completions
          \<lparr>TRITON_BASE = ''http://t:8000'', TRITON_MODEL = ''m'',
            post_result = Raised ''ConnectionError'',
            time_before = 1, time_after = 2, time_id_ms = 3000, time_created = 4\<rparr>
          \<lparr>model = None, messages = [], temperature = None, max_tokens = None,
            stream = None, stop = None\<rparr>))
   \<and> fst (chat_completions
          \<lparr>TRITON_BASE = ''http://t:8000'', TRITON_MODEL = ''m'',
            post_result = Returned \<lparr>status_code = 500, body = ''oops'', json_body = None\<rparr>,
            time_before = 1, time_after = 2, time_id_ms = 3000, time_created = 4\<rparr>
          \<lparr>model = None, messages = [], temperature = None, max_tokens = None,
            stream = None, stop = None\<rparr>)
     = Inl (HTTPException 502
              (JObj [(''triton_status'', JInt 500), (''triton_body'', JStr ''oops'')]))
   \<and> gateway_error (fst (chat_completions
          \<lparr>TRITON_BASE = ''http://t:8000'', TRITON_MODEL = ''m'',
            post_result = Returned \<lparr>status_code = 500, body = ''oops'', json_body = None\<rparr>,
            time_before = 1, time_after = 2, time_id_ms = 3000, time_created = 4\<rparr>
          \<lparr>model = None, messages = [], temperature = None, max_tokens = None,
            stream = None, stop = None\<rparr>))"
proof -
  let ?req = "\<lparr>model = None, messages = [], temperature = None, max_tokens = None,
            stream = None, stop = None\<rparr>"
  let ?w1 = "\<lparr>TRITON_BASE = ''http://t:8000'', TRITON_MODEL = ''m'',
            post_result = Raised ''ConnectionError'',
            time_before = 1, time_after = 2, time_id_ms = 3000, time_created = 4\<rparr>"
  let ?r = "\<lparr>status_code = 500, body = ''oops'', json_body = None\<rparr>"
  let ?w2 = "\<lparr>TRITON_BASE = ''http://t:8000'', TRITON_MODEL = ''m'',
            post_result = Returned ?r,
            time_before = 1, time_after = 2, time_id_ms = 3000, time_created = 4\<rparr>"
  have a: "stream ?req \<noteq> Some True \<and> post_result ?w1 = Raised ''ConnectionError''" by simp
  have b: "stream ?req \<noteq> Some True \<and> post_result ?w2 = Returned ?r \<and> status_code ?r \<noteq> 200"
    by simp
  show ?thesis
    using a b
      transport_failure_propagates [of ?req ?w1 "''ConnectionError''" ?r]
      transport_failure_propagates [of ?req ?w2 "''ConnectionError''" ?r]
    by (simp add: gateway_error_def)
qed

text \<open>
  Claim C4 says that two distinct successful responses never share an id. The id is
  made of the product \<^verbatim>\<open>time.time()*1000\<close> of line 122 cut to a whole number: two requests
  answered within one millisecond, here with the products 1730000000123.25 and
  1730000000123.75, get the same id although their responses differ.
\<close>

theorem same_millisecond_same_id:
  "response_field ''id''
     (fst (chat_completions
        \<lparr>TRITON_BASE = ''http://172.17.0.2:8000'', TRITON_MODEL = ''vllm_model'',
          post_result = Returned \<lparr>status_code = 200, body = ''{}'', json_body = Some (JObj [])\<rparr>,
          time_before = 1730000000.05, time_after = 1730000000.12,
          time_id_ms = 1730000000123.25, time_created = 1730000000.1235\<rparr>
        \<lparr>model = Some ''first'', messages = [\<lparr>role = ''user'', content = ''Hi''\<rparr>],
          temperature = Some 0, max_tokens = Some 256, stream = Some False, stop = None\<rparr>))
     = Some (JStr ''chatcmpl-adapter-1730000000123'')
   \<and> response_field ''id''
     (fst (chat_completions
        \<lparr>TRITON_BASE = ''http://172.17.0.2:8000'', TRITON_MODEL = ''vllm_model'',
          post_result = Returned \<lparr>status_code = 200, body = ''{}'', json_body = Some (JObj [])\<rparr>,
          time_before = 1730000000.06, time_after = 1730000000.12,
          time_id_ms = 1730000000123.75, time_created = 1730000000.1239\<rparr>
        \<lparr>model = Some ''second'', messages = [\<lparr>role = ''user'', content = ''Hi''\<rparr>],
          temperature = Some 0, max_tokens = Some 256, stream = Some False, stop = None\<rparr>))
     = Some (JStr ''chatcmpl-adapter-1730000000123'')
   \<and> response_field ''model''
     (fst (chat_completions
        \<lparr>TRITON_BASE = ''http://172.17.0.2:8000'', TRITON_MODEL = ''vllm_model'',
          post_result = Returned \<lparr>status_code = 200, body = ''{}'', json_body = Some (JObj [])\<rparr>,
          time_before = 1730000000.05, time_after = 1730000000.12,
          time_id_ms = 1730000000123.25, time_created = 1730000000.1235\<rparr>
        \<lparr>model = Some ''first'', messages = [\<lparr>role = ''user'', content = ''Hi''\<rparr>],
          temperature = Some 0, max_tokens = Some 256, stream = Some False, stop = None\<rparr>))
     = Some (JStr ''first'')
   \<and> response_field ''model''
     (fst (chat_completions
        \<lparr>TRITON_BASE = ''http://172.17.0.2:8000'', TRITON_MODEL = ''vllm_model'',
          post_result = Returned \<lparr>status_code = 200, body = ''{}'', json_body = Some (JObj [])\<rparr>,
          time_before = 1730000000.06, time_after = 1730000000.12,
          time_id_ms = 1730000000123.75, time_created = 1730000000.1239\<rparr>
        \<lparr>model = Some ''second'', messages = [\<lparr>role = ''user'', content = ''Hi''\<rparr>],
          temperature = Some 0, max_tokens = Some 256, stream = Some False, stop = None\<rparr>))
     = Some (JStr ''second'')"
  by (simp add: handler_eval char_of_eq_iff)

text \<open>
  Claim C4 as amended: the id of a successful response is \<^verbatim>\<open>chatcmpl-adapter-\<close> followed by
  the decimal digits of \<^verbatim>\<open>int(time.time()*1000)\<close>, the product of line 122 cut to a whole
  number; two successful responses carry the same id exactly when these whole numbers
  are equal.
\<close>

theorem response_id_by_millisecond:
  "fst (chat_completions w1 req1) = Inr res1 \<Longrightarrow> fst (chat_completions w2 req2) = Inr res2 \<Longrightarrow>
   map_of res1 ''id''
     = Some (JStr (''chatcmpl-adapter-'' @ str_int (py_int (time_id_ms w1)))) \<and>
   (map_of res1 ''id'' = map_of res2 ''id'' \<longleftrightarrow>
      py_int (time_id_ms w1) = py_int (time_id_ms w2))"
  using success_is_completion [of w1 req1 res1] success_is_completion [of w2 req2 res2]
    str_int_inj
  by (auto simp: completion_def response_id_def)

theorem response_id_by_millisecond_witness:
  "fst (chat_completions
          \<lparr>TRITON_BASE = ''http://t:8000'', TRITON_MODEL = ''m'',
            post_result = Returned \<lparr>status_code = 200, body = ''{}'', json_body = Some (JObj [])\<rparr>,
            time_before = 10, time_after = 11, time_id_ms = 12000.5, time_created = 13\<rparr>
          \<lparr>model = None, messages = [], temperature = None, max_tokens = None,
            stream = None, stop = None\<rparr>)
     = Inr (completion
          \<lparr>TRITON_BASE = ''http://t:8000'', TRITON_MODEL = ''m'',
            post_result = Returned \<lparr>status_code = 200, body = ''{}'', json_body = Some (JObj [])\<rparr>,
            time_before = 10, time_after = 11, time_id_ms = 12000.5, time_created = 13\<rparr>
          \<lparr>model = None, messages = [], temperature = None, max_tokens = None,
            stream = None, stop = None\<rparr> [])
   \<and> fst (chat_completions
          \<lparr>TRITON_BASE = ''http://t:8000'', TRITON_MODEL = ''m'',
            post_result = Returned \<lparr>status_code = 200, body = ''{}'', json_body = Some (JObj [])\<rparr>,
            time_before = 10, time_after = 11, time_id_ms = 12001.25, time_created = 13\<rparr>
          \<lparr>model = None, messages = [], temperature = None, max_tokens = None,
            stream = None, stop = None\<rparr>)
     = Inr (completion
          \<lparr>TRITON_BASE = ''http://t:8000'', TRITON_MODEL = ''m'',
            post_result = Returned \<lparr>status_code = 200, body = ''{}'', json_body = Some (JObj [])\<rparr>,
            time_before = 10, time_after = 11, time_id_ms = 12001.25, time_created = 13\<rparr>
          \<lparr>model = None, messages = [], temperature = None, max_tokens = None,
            stream = None, stop = None\<rparr> [])
   \<and> map_of (completion
          \<lparr>TRITON_BASE = ''http://t:8000'', TRITON_MODEL = ''m'',
            post_result = Returned \<lparr>status_code = 200, body = ''{}'', json_body = Some (JObj [])\<rparr>,
            time_before = 10, time_after = 11, time_id_ms = 12000.5, time_created = 13\<rparr>
          \<lparr>model = None, messages = [], temperature = None, max_tokens = None,
            stream = None, stop = None\<rparr> []) ''id''
     = Some (JStr ''chatcmpl-adapter-12000'')
   \<and> map_of (completion
          \<lparr>TRITON_BASE = ''http://t:8000'', TRITON_MODEL = ''m'',
            post_result = Returned \<lparr>status_code = 200, body = ''{}'', json_body = Some (JObj [])\<rparr>,
            time_before = 10, time_after = 11, time_id_ms = 12000.5, time_created = 13\<rparr>
          \<lparr>model = None, messages = [], temperature = None, max_tokens = None,
            stream = None, stop = None\<rparr> []) ''id''
     \<noteq> map_of (completion
          \<lparr>TRITON_BASE = ''http://t:8000'', TRITON_MODEL = ''m'',
            post_result = Returned \<lparr>status_code = 200, body = ''{}'', json_body = Some (JObj [])\<rparr>,
            time_before = 10, time_after = 11, time_id_ms = 12001.25, time_created = 13\<rparr>
          \<lparr>model = None, messages = [], temperature = None, max_tokens = None,
            stream = None, stop = None\<rparr> []) ''id''"
proof -
  let ?r = "\<lparr>status_code = 200, body = ''{}'', json_body = Some (JObj [])\<rparr>"
  let ?w1 = "\<lparr>TRITON_BASE = ''http://t:8000'', TRITON_MODEL = ''m'', post_result = Returned ?r,
            time_before = 10, time_after = 11, time_id_ms = 12000.5, time_created = 13\<rparr>"
  let ?w2 = "\<lparr>TRITON_BASE = ''http://t:8000'', TRITON_MODEL = ''m'', post_result = Returned ?r,
            time_before = 10, time_after = 11, time_id_ms = 12001.25, time_created = 13\<rparr>"
  let ?req = "\<lparr>model = None, messages = [], temperature = None, max_tokens = None,
            stream = None, stop = None\<rparr>"
  have h1: "fst (chat_completions ?w1 ?req) = Inr (completion ?w1 ?req [])"
    by (simp add: chat_completions_def handle_response_def text_output_def clean_value_def)
  have h2: "fst (chat_completions ?w2 ?req) = Inr (completion ?w2 ?req [])"
    by (simp add: chat_completions_def handle_response_def text_output_def clean_value_def)
  have ms1: "py_int (time_id_ms ?w1) = 12000" and ms2: "py_int (time_id_ms ?w2) = 12001"
    by (simp_all add: py_int_def)
  have str: "''chatcmpl-adapter-'' @ str_int 12000 = ''chatcmpl-adapter-12000''"
    by (simp add: str_int_def digits.simps digit_char_def char_of_eq_iff)
  note by_ms = response_id_by_millisecond [OF h1 h2]
  from by_ms have "map_of (completion ?w1 ?req []) ''id''
      = Some (JStr (''chatcmpl-adapter-'' @ str_int (py_int (time_id_ms ?w1))))"
    by (rule conjunct1)
  then have id1: "map_of (completion ?w1 ?req []) ''id'' = Some (JStr ''chatcmpl-adapter-12000'')"
    by (simp only: ms1 str)
  from by_ms have "(map_of (completion ?w1 ?req []) ''id'' = map_of (completion ?w2 ?req []) ''id'')
      \<longleftrightarrow> py_int (time_id_ms ?w1) = py_int (time_id_ms ?w2)"
    by (rule conjunct2)
  then have ne: "map_of (completion ?w1 ?req []) ''id'' \<noteq> map_of (completion ?w2 ?req []) ''id''"
    by (simp add: py_int_def)
  show ?thesis by (intro conjI h1 h2 id1 ne)
qed

text \<open>
  Claim C5 says that the usage object of a successful response has the key
  \<^verbatim>\<open>latency_seconds\<close>. The handler writes the elapsed time under the key
  \<^verbatim>\<open>triton_latency_s\<close>; the usage object has no key \<^verbatim>\<open>latency_seconds\<close>.
\<close>

theorem usage_has_no_latency_seconds:
  "response_field ''usage''
     (fst (chat_completions
        \<lparr>TRITON_BASE = ''http://172.17.0.2:8000'', TRITON_MODEL = ''vllm_model'',
          post_result = Returned \<lparr>status_code = 200, body = ''{}'', json_body = Some (JObj [])\<rparr>,
          time_before = 10, time_after = 12, time_id_ms = 13000, time_created = 14\<rparr>
        \<lparr>model = None, messages = [\<lparr>role = ''user'', content = ''Hi''\<rparr>],
          temperature = Some 0, max_tokens = Some 256, stream = Some False, stop = None\<rparr>))
     = Some (JObj [(''prompt_tokens'', JNull), (''completion_tokens'', JNull),
                   (''total_tokens'', JNull), (''triton_latency_s'', JFloat 2)])
   \<and> map_of [(''prompt_tokens'', JNull), (''completion_tokens'', JNull),
             (''total_tokens'', JNull), (''triton_latency_s'', JFloat 2)] ''latency_seconds''
     = None"
  by (simp add: chat_completions_def handle_response_def text_output_def clean_value_def
      completion_def usage_def response_field_def)

text \<open>
  Claim C5 as amended: the usage object of every successful response is
  \<^verbatim>\<open>{prompt_tokens: null, completion_tokens: null, total_tokens: null, triton_latency_s: dt}\<close>,
  where \<^verbatim>\<open>dt\<close> is the clock reading after the backend call minus the reading before it.
\<close>

theorem usage_shape:
  "fst (chat_completions w req) = Inr res \<Longrightarrow>
   map_of res ''usage'' =
     Some (JObj [(''prompt_tokens'', JNull), (''completion_tokens'', JNull),
                 (''total_tokens'', JNull),
                 (''triton_latency_s'', JFloat (time_after w - time_before w))])"
  using success_is_completion [of w req res] by (auto simp: completion_def usage_def)

theorem usage_shape_witness:
  "fst (chat_completions
          \<lparr>TRITON_BASE = ''http://t:8000'', TRITON_MODEL = ''m'',
            post_result = Returned \<lparr>status_code = 200, body = ''{}'',
                                    json_body = Some (JObj [(''text_output'', JStr ''OK'')])\<rparr>,
            time_before = 10, time_after = 13, time_id_ms = 14000, time_created = 15\<rparr>
          \<lparr>model = None, messages = [], temperature = None, max_tokens = None,
            stream = None, stop = None\<rparr>)
     = Inr (completion
          \<lparr>TRITON_BASE = ''http://t:8000'', TRITON_MODEL = ''m'',
            post_result = Returned \<lparr>status_code = 200, body = ''{}'',
                                    json_body = Some (JObj [(''text_output'', JStr ''OK'')])\<rparr>,
            time_before = 10, time_after = 13, time_id_ms = 14000, time_created = 15\<rparr>
          \<lparr>model = None, messages = [], temperature = None, max_tokens = None,
            stream = None, stop = None\<rparr> ''OK'')
   \<and> map_of (completion
          \<lparr>TRITON_BASE = ''http://t:8000'', TRITON_MODEL = ''m'',
            post_result = Returned \<lparr>status_code = 200, body = ''{}'',
                                    json_body = Some (JObj [(''text_output'', JStr ''OK'')])\<rparr>,
            time_before = 10, time_after = 13, time_id_ms = 14000, time_created = 15\<rparr>
          \<lparr>model = None, messages = [], temperature = None, max_tokens = None,
            stream = None, stop = None\<rparr> ''OK'') ''usage''
     = Some (JObj [(''prompt_tokens'', JNull), (''completion_tokens'', JNull),
                   (''total_tokens'', JNull), (''triton_latency_s'', JFloat 3)])"
proof -
  let ?w = "\<lparr>TRITON_BASE = ''http://t:8000'', TRITON_MODEL = ''m'',
            post_result = Returned \<lparr>status_code = 200, body = ''{}'',
                                    json_body = Some (JObj [(''text_output'', JStr ''OK'')])\<rparr>,
            time_before = 10, time_after = 13, time_id_ms = 14000, time_created = 15\<rparr>"
  let ?req = "\<lparr>model = None, messages = [], temperature = None, max_tokens = None,
            stream = None, stop = None\<rparr>"
  have "clean_completion ''OK'' = ''OK''" by (simp add: string_eval cleaner_eval)
  then have h: "fst (chat_completions ?w ?req) = Inr (completion ?w ?req ''OK'')"
    by (simp add: chat_completions_def handle_response_def text_output_def clean_value_def)
  show ?thesis using h usage_shape [OF h] by simp
qed

text \<open>
  Claim C7 says that a non-empty stop list always puts its first element into the
  payload. Line 104 adds the key only when the resolved value is a non-empty string: the
  list \<^verbatim>\<open>["", "Y"]\<close> is not empty, its first element is the empty string, and the
  parameters have no \<^verbatim>\<open>stop\<close> key.
\<close>

theorem empty_first_stop_omitted:
  "params \<lparr>model = None, messages = [\<lparr>role = ''user'', content = ''Hi''\<rparr>],
           temperature = Some 0, max_tokens = Some 256, stream = Some False,
           stop = Some (StopList ['''', ''Y''])\<rparr>
     = [(''stream'', JBool False), (''temperature'', JFloat 0), (''max_tokens'', JInt 256)]
   \<and> map_of (params \<lparr>model = None, messages = [\<lparr>role = ''user'', content = ''Hi''\<rparr>],
           temperature = Some 0, max_tokens = Some 256, stream = Some False,
           stop = Some (StopList ['''', ''Y''])\<rparr>) ''stop''
     \<noteq> Some (JStr (hd ['''', ''Y'']))"
  by (simp add: params_def stop_val_def)

text \<open>
  Claim C7 as amended: a request that does not ask for streaming issues one outbound
  call, whose parameters are those built at lines 99 to 105. In them, a stop list whose
  first element is a non-empty string puts that element under the key \<^verbatim>\<open>stop\<close>; a
  non-empty stop string is used as it is; and the key \<^verbatim>\<open>stop\<close> is left out when the
  field is absent, the empty string, the empty list, or a list whose first element is
  the empty string.
\<close>

theorem stop_normalization:
  "stream req \<noteq> Some True \<Longrightarrow>
   map payload_parameters (snd (chat_completions w req)) = [Some (params req)] \<and>
   (stop req = Some (StopList (x # xs)) \<and> x \<noteq> [] \<longrightarrow>
      map_of (params req) ''stop'' = Some (JStr x)) \<and>
   (stop req = Some (StopStr s) \<and> s \<noteq> [] \<longrightarrow>
      map_of (params req) ''stop'' = Some (JStr s)) \<and>
   (stop req = None \<or> stop req = Some (StopStr []) \<or> stop req = Some (StopList [])
      \<or> stop req = Some (StopList ([] # xs)) \<longrightarrow>
      map_of (params req) ''stop'' = None)"
  using outbound_parameters [of req w] by (auto simp: params_def stop_val_def)

theorem stop_normalization_witness:
  "map payload_parameters
     (snd (chat_completions
        \<lparr>TRITON_BASE = ''http://t:8000'', TRITON_MODEL = ''m'',
          post_result = Raised ''ConnectionError'',
          time_before = 1, time_after = 2, time_id_ms = 3000, time_created = 4\<rparr>
        \<lparr>model = None, messages = [], temperature = None, max_tokens = None,
          stream = None, stop = Some (StopList [''X'', ''Y''])\<rparr>))
     = [Some [(''stream'', JBool False), (''temperature'', JFloat 0),
              (''max_tokens'', JInt 256), (''stop'', JStr ''X'')]]
   \<and> map payload_parameters
     (snd (chat_completions
        \<lparr>TRITON_BASE = ''http://t:8000'', TRITON_MODEL = ''m'',
          post_result = Raised ''ConnectionError'',
          time_before = 1, time_after = 2, time_id_ms = 3000, time_created = 4\<rparr>
        \<lparr>model = None, messages = [], temperature = None, max_tokens = None,
          stream = None, stop = Some (StopStr ''END'')\<rparr>))
     = [Some [(''stream'', JBool False), (''temperature'', JFloat 0),
              (''max_tokens'', JInt 256), (''stop'', JStr ''END'')]]
   \<and> map payload_parameters
     (snd (chat_completions
        \<lparr>TRITON_BASE = ''http://t:8000'', TRITON_MODEL = ''m'',
          post_result = Raised ''ConnectionError'',
          time_before = 1, time_after = 2, time_id_ms = 3000, time_created = 4\<rparr>
        \<lparr>model = None, messages = [], temperature = None, max_tokens = None,
          stream = None, stop = Some (StopList [])\<rparr>))
     = [Some [(''stream'', JBool False), (''temperature'', JFloat 0),
              (''max_tokens'', JInt 256)]]"
proof -
  let ?w = "\<lparr>TRITON_BASE = ''http://t:8000'', TRITON_MODEL = ''m'',
          post_result = Raised ''ConnectionError'',
          time_before = 1, time_after = 2, time_id_ms = 3000, time_created = 4\<rparr>"
  let ?r1 = "\<lparr>model = None, messages = [], temperature = None, max_tokens = None,
          stream = None, stop = Some (StopList [''X'', ''Y''])\<rparr>"
  let ?r2 = "\<lparr>model = None, messages = [], temperature = None, max_tokens = None,
          stream = None, stop = Some (StopStr ''END'')\<rparr>"
  let ?r3 = "\<lparr>model = None, messages = [], temperature = None, max_tokens = None,
          stream = None, stop = Some (StopList [])\<rparr>"
  have h1: "stream ?r1 \<noteq> Some True" and h2: "stream ?r2 \<noteq> Some True"
    and h3: "stream ?r3 \<noteq> Some True" by simp_all
  have p: "params ?r1 = [(''stream'', JBool False), (''temperature'', JFloat 0),
              (''max_tokens'', JInt 256), (''stop'', JStr ''X'')]"
    "params ?r2 = [(''stream'', JBool False), (''temperature'', JFloat 0),
              (''max_tokens'', JInt 256), (''stop'', JStr ''END'')]"
    "params ?r3 = [(''stream'', JBool False), (''temperature'', JFloat 0),
              (''max_tokens'', JInt 256)]"
    by (simp_all add: params_def stop_val_def)
  show ?thesis
    using p
      stop_normalization [OF h1, of ?w "''X''" "[''Y'']" "[]"]
      stop_normalization [OF h2, of ?w "''X''" "[]" "''END''"]
      stop_normalization [OF h3, of ?w "''X''" "[]" "[]"]
    by simp
qed

text \<open>
  Claim C10: a request that gives \<^verbatim>\<open>temperature\<close> or \<^verbatim>\<open>max_tokens\<close> as null issues the very
  outbound calls of the request that leaves the field out; a request that does not ask
  for streaming sends the parameters built at lines 99 to 105, in which a null
  \<^verbatim>\<open>temperature\<close> is 0.0 and a null \<^verbatim>\<open>max_tokens\<close> is 256; and for no request is null the
  value of either parameter.
\<close>

theorem null_sampling_fields_defaulted:
  "snd (chat_completions w (parse_request (b\<lparr>body_temperature := Null\<rparr>)))
     = snd (chat_completions w (parse_request (b\<lparr>body_temperature := Absent\<rparr>)))
   \<and> snd (chat_completions w (parse_request (b\<lparr>body_max_tokens := Null\<rparr>)))
     = snd (chat_completions w (parse_request (b\<lparr>body_max_tokens := Absent\<rparr>)))
   \<and> (stream req \<noteq> Some True \<longrightarrow>
        map payload_parameters (snd (chat_completions w req)) = [Some (params req)])
   \<and> params (parse_request (b\<lparr>body_temperature := Null\<rparr>))
     = params (parse_request (b\<lparr>body_temperature := Absent\<rparr>))
   \<and> params (parse_request (b\<lparr>body_max_tokens := Null\<rparr>))
     = params (parse_request (b\<lparr>body_max_tokens := Absent\<rparr>))
   \<and> map_of (params (parse_request (b\<lparr>body_temperature := Null\<rparr>))) ''temperature''
     = Some (JFloat 0.0)
   \<and> map_of (params (parse_request (b\<lparr>body_max_tokens := Null\<rparr>))) ''max_tokens''
     = Some (JInt 256)
   \<and> (temperature req = None \<longrightarrow> map_of (params req) ''temperature'' = Some (JFloat 0.0))
   \<and> (max_tokens req = None \<longrightarrow> map_of (params req) ''max_tokens'' = Some (JInt 256))
   \<and> map_of (params req) ''temperature'' \<noteq> Some JNull
   \<and> map_of (params req) ''max_tokens'' \<noteq> Some JNull"
proof -
  have calls: "snd (chat_completions w (parse_request (b\<lparr>body_temperature := Null\<rparr>)))
     = snd (chat_completions w (parse_request (b\<lparr>body_temperature := Absent\<rparr>)))"
    "snd (chat_completions w (parse_request (b\<lparr>body_max_tokens := Null\<rparr>)))
     = snd (chat_completions w (parse_request (b\<lparr>body_max_tokens := Absent\<rparr>)))"
    by (simp_all add: chat_completions_def the_call_def payload_def params_def stop_val_def
        parse_request_def with_default_def split: post_outcome.splits)
  have rest: "params (parse_request (b\<lparr>body_temperature := Null\<rparr>))
     = params (parse_request (b\<lparr>body_temperature := Absent\<rparr>))
   \<and> params (parse_request (b\<lparr>body_max_tokens := Null\<rparr>))
     = params (parse_request (b\<lparr>body_max_tokens := Absent\<rparr>))
   \<and> map_of (params (parse_request (b\<lparr>body_temperature := Null\<rparr>))) ''temperature''
     = Some (JFloat 0.0)
   \<and> map_of (params (parse_request (b\<lparr>body_max_tokens := Null\<rparr>))) ''max_tokens''
     = Some (JInt 256)
   \<and> (temperature req = None \<longrightarrow> map_of (params req) ''temperature'' = Some (JFloat 0.0))
   \<and> (max_tokens req = None \<longrightarrow> map_of (params req) ''max_tokens'' = Some (JInt 256))
   \<and> map_of (params req) ''temperature'' \<noteq> Some JNull
   \<and> map_of (params req) ''max_tokens'' \<noteq> Some JNull"
    by (simp add: params_def stop_val_def parse_request_def with_default_def)
  show ?thesis using calls rest outbound_parameters [of req w] by blast
qed

theorem null_sampling_fields_defaulted_witness:
  "map payload_parameters
     (snd (chat_completions
        \<lparr>TRITON_BASE = ''http://t:8000'', TRITON_MODEL = ''m'',
          post_result = Raised ''ConnectionError'',
          time_before = 1, time_after = 2, time_id_ms = 3000, time_created = 4\<rparr>
        (parse_request
          \<lparr>body_model = Absent, body_messages = [\<lparr>role = ''user'', content = ''Hi''\<rparr>],
            body_temperature = Null, body_max_tokens = Null, body_stream = Absent,
            body_stop = Absent\<rparr>)))
     = [Some [(''stream'', JBool False), (''temperature'', JFloat 0),
              (''max_tokens'', JInt 256)]]"
proof -
  let ?w = "\<lparr>TRITON_BASE = ''http://t:8000'', TRITON_MODEL = ''m'',
          post_result = Raised ''ConnectionError'',
          time_before = 1, time_after = 2, time_id_ms = 3000, time_created = 4\<rparr>"
  let ?b = "\<lparr>body_model = Absent, body_messages = [\<lparr>role = ''user'', content = ''Hi''\<rparr>],
        body_temperature = Null, body_max_tokens = Null, body_stream = Absent,
        body_stop = Absent\<rparr>"
  have a: "stream (parse_request ?b) \<noteq> Some True"
    and t: "temperature (parse_request ?b) = None"
    and m: "max_tokens (parse_request ?b) = None"
    by (simp_all add: parse_request_def with_default_def)
  have p: "params (parse_request ?b)
     = [(''stream'', JBool False), (''temperature'', JFloat 0), (''max_tokens'', JInt 256)]"
    by (simp add: params_def stop_val_def parse_request_def with_default_def)
  from a null_sampling_fields_defaulted [of ?w ?b "parse_request ?b"]
  have "map payload_parameters (snd (chat_completions ?w (parse_request ?b)))
      = [Some (params (parse_request ?b))]"
    by blast
  then show ?thesis by (simp only: p)
qed

end
